theory Spec2Isabelle
  imports Main "HOL-Library.Sublist"
begin

section \<open>The Synapse charm: unit identity, main designation, topology, signing key\<close>

text \<open>
  A shallow embedding of \<^verbatim>\<open>src/charm.py\<close> (class \<^verbatim>\<open>SynapseCharm\<close>). Python strings are
  \<^typ>\<open>string\<close>, Python dictionaries whose order matters are association lists, the peer
  databag is a map, and the mutable objects reached through \<^verbatim>\<open>self\<close> are the fields of one
  record that every method takes and returns.
\<close>

subsection \<open>String operations of Python used by the charm\<close>

text \<open>\<^verbatim>\<open>s.replace("/", "-")\<close>\<close>

definition replace_slash :: "string \<Rightarrow> string" where
  "replace_slash s = map (\<lambda>c. if c = CHR ''/'' then CHR ''-'' else c) s"

text \<open>\<^verbatim>\<open>s.split(".")[0]\<close>: the text before the first dot, the whole string when there is none.\<close>

definition split_dot_first :: "string \<Rightarrow> string" where
  "split_dot_first s = takeWhile (\<lambda>c. c \<noteq> CHR ''.'') s"

text \<open>\<^verbatim>\<open>s.rfind(c)\<close>: the highest index of \<open>c\<close>, or \<open>-1\<close>.\<close>

fun rfind :: "string \<Rightarrow> char \<Rightarrow> int" where
  "rfind [] c = - 1"
| "rfind (x # xs) c =
     (let r = rfind xs c
      in if r \<noteq> - 1 then r + 1 else if x = c then 0 else - 1)"

text \<open>The class \<^verbatim>\<open>\d\<close> on ASCII text.\<close>

definition is_digit :: "char \<Rightarrow> bool" where
  "is_digit c = (c \<in> set ''0123456789'')"

text \<open>
  \<^verbatim>\<open>re.search(r"-(\d+)", s)\<close>: the leftmost hyphen that is followed by a digit; group 1 is
  the longest run of digits after it. \<open>None\<close> is Python's \<^verbatim>\<open>None\<close> (no match).
\<close>

fun re_search_dash_digits :: "string \<Rightarrow> string option" where
  "re_search_dash_digits [] = None"
| "re_search_dash_digits (c # cs) =
     (if c = CHR ''-'' \<and> takeWhile is_digit cs \<noteq> []
      then Some (takeWhile is_digit cs)
      else re_search_dash_digits cs)"

text \<open>
  \<^verbatim>\<open>s.rstrip()\<close>: trailing white space removed (the ASCII characters for which
  \<^verbatim>\<open>str.isspace\<close> holds).
\<close>

definition is_space :: "char \<Rightarrow> bool" where
  "is_space c = (of_char c \<in> {9, 10, 11, 12, 13, 28, 29, 30, 31, 32 :: nat})"

definition rstrip :: "string \<Rightarrow> string" where
  "rstrip s = rev (dropWhile is_space (rev s))"

subsection \<open>The objects behind \<^verbatim>\<open>self\<close>\<close>

text \<open>\<^verbatim>\<open>ops.StatusBase\<close> and its subclasses.\<close>

datatype status =
    ActiveStatus string
  | BlockedStatus string
  | MaintenanceStatus string
  | WaitingStatus string
  | UnknownStatus

text \<open>The exceptions that the modelled methods raise or catch.\<close>

datatype exn =
    AttributeError
  | PebbleServiceError string
  | FileNotFoundError string

text \<open>
  The peer relation: \<open>units\<close> are the names of the remote units in the order in which
  \<^verbatim>\<open>relation.units\<close> is iterated, \<open>app_data\<close> is \<^verbatim>\<open>relation.data[self.app]\<close>.
\<close>

record relation =
  units :: "string list"
  app_data :: "string \<rightharpoonup> string"

text \<open>
  The workload container as the control plane shows it: whether it can be reached, its
  files, and for each service name whether that service is running.
\<close>

record container =
  can_connect :: bool
  files :: "string \<rightharpoonup> string"
  services :: "string \<rightharpoonup> bool"

text \<open>
  What a run does to its collaborators, in order: a ghost trace, written and never read by
  the charm.
\<close>

datatype 'cs call =
    Push string string
  | PebbleReconcile 'cs bool string
  | Pull string
  | AddSecret "(string \<times> string) list"
  | UpdateMatrixAuth 'cs
  | RestartNginx string

text \<open>
  The charm: \<open>relations\<close> is \<^verbatim>\<open>self.model.relations[synapse.SYNAPSE_PEER_RELATION_NAME]\<close>,
  \<open>secrets\<close> the secrets of the model by id, each with its content.
\<close>

record 'cs charm =
  unit_name :: string
  app_name :: string
  planned_units :: int
  is_leader :: bool
  relations :: "relation list"
  secrets :: "(string \<times> (string \<rightharpoonup> string)) list"
  unit_status :: status
  workload :: container
  calls :: "'cs call list"

text \<open>
  The collaborators whose code is outside \<^verbatim>\<open>charm.py\<close>, taken as parameters: the two
  service names of the module \<^verbatim>\<open>synapse\<close>, the server name read from a charm state,
  \<^verbatim>\<open>pebble.reconcile\<close> (which returns the container it leaves, or raises
  \<^verbatim>\<open>PebbleServiceError\<close> with a message), \<^verbatim>\<open>pebble.restart_nginx\<close>, and the id that the
  model gives to a new secret.
\<close>

record 'cs ext =
  SYNAPSE_SERVICE_NAME :: string
  SYNAPSE_NGINX_SERVICE_NAME :: string
  server_name :: "'cs \<Rightarrow> string"
  pebble_reconcile :: "'cs \<Rightarrow> container \<Rightarrow> bool \<Rightarrow> string \<Rightarrow> string + container"
  restart_nginx :: "container \<Rightarrow> string \<Rightarrow> container"
  new_secret_id :: "(string \<times> (string \<rightharpoonup> string)) list \<Rightarrow> string"

definition MAIN_UNIT_ID :: string where
  "MAIN_UNIT_ID = ''main_unit_id''"

definition SECRET_SIGNING_ID :: string where
  "SECRET_SIGNING_ID = ''secret-signing-id''"

definition SECRET_SIGNING_KEY :: string where
  "SECRET_SIGNING_KEY = ''secret-signing-key''"

subsection \<open>Unit identity\<close>

text \<open>
  \<^verbatim>\<open>get_unit_number\<close> (lines 126-144). The function has no \<^verbatim>\<open>raise\<close>, and \<^verbatim>\<open>split\<close>,
  \<^verbatim>\<open>rfind\<close> and slicing never raise: it returns a string for every argument.
\<close>

definition get_unit_number :: "'cs charm \<Rightarrow> string \<Rightarrow> string" where
  "get_unit_number s unit_name0 =
     (let unit_name1 = (if unit_name0 = [] then unit_name s else unit_name0);
          unit_part = split_dot_first unit_name1;
          index0 = rfind unit_part CHR ''/'';
          index = (if index0 = - 1 then rfind unit_part CHR ''-'' else index0);
          begin = index + 1
      in drop (nat begin) unit_part)"


subsection \<open>The main designation\<close>

text \<open>\<^verbatim>\<open>get_main_unit\<close> (lines 345-358).\<close>

definition get_main_unit :: "'cs charm \<Rightarrow> string option" where
  "get_main_unit s =
     (case relations s of
        [] \<Rightarrow> None
      | r # _ \<Rightarrow> app_data r MAIN_UNIT_ID)"

text \<open>\<^verbatim>\<open>is_main\<close> (lines 118-124).\<close>

definition is_main :: "'cs charm \<Rightarrow> bool" where
  "is_main s = (get_main_unit s = Some (unit_name s))"

text \<open>\<^verbatim>\<open>get_main_unit_address\<close> (lines 360-370).\<close>

definition get_main_unit_address :: "'cs charm \<Rightarrow> string" where
  "get_main_unit_address s =
     (let main_unit_name = (case get_main_unit s of None \<Rightarrow> unit_name s | Some m \<Rightarrow> m);
          main_unit_formatted = replace_slash main_unit_name
      in main_unit_formatted @ ''.'' @ app_name s @ ''-endpoints'')"

text \<open>\<^verbatim>\<open>set_main_unit\<close> (lines 372-386): without a peer relation it only logs.\<close>

definition set_main_unit :: "string \<Rightarrow> 'cs charm \<Rightarrow> 'cs charm" where
  "set_main_unit unit s =
     (case relations s of
        [] \<Rightarrow> s
      | r # rs \<Rightarrow> s\<lparr>relations := r\<lparr>app_data := (app_data r)(MAIN_UNIT_ID \<mapsto> unit)\<rparr> # rs\<rparr>)"

subsection \<open>The signing key\<close>

text \<open>A write to \<^verbatim>\<open>peer_relation[0].data[self.app]\<close> where the relation is known to exist.\<close>

definition peer_data_update ::
  "((string \<rightharpoonup> string) \<Rightarrow> (string \<rightharpoonup> string)) \<Rightarrow> 'cs charm \<Rightarrow> 'cs charm" where
  "peer_data_update f s =
     (case relations s of
        [] \<Rightarrow> s
      | r # rs \<Rightarrow> s\<lparr>relations := r\<lparr>app_data := f (app_data r)\<rparr> # rs\<rparr>)"

text \<open>
  \<^verbatim>\<open>get_signing_key\<close> (lines 412-435) returns the key and the state it leaves: a reference
  that the model cannot resolve (\<^verbatim>\<open>SecretNotFoundError\<close>) is deleted from the databag. An
  empty id is falsy and is not looked up.
\<close>

definition get_signing_key :: "'cs charm \<Rightarrow> string option \<times> 'cs charm" where
  "get_signing_key s =
     (case relations s of
        [] \<Rightarrow> (None, s)
      | r # _ \<Rightarrow>
          (case app_data r SECRET_SIGNING_ID of
             None \<Rightarrow> (None, s)
           | Some secret_id \<Rightarrow>
               if secret_id = [] then (None, s)
               else
                 (case map_of (secrets s) secret_id of
                    Some content \<Rightarrow> (content SECRET_SIGNING_KEY, s)
                  | None \<Rightarrow> (None, peer_data_update (\<lambda>d. d(SECRET_SIGNING_ID := None)) s))))"

text \<open>\<^verbatim>\<open>set_signing_key\<close> (lines 388-410).\<close>

definition set_signing_key :: "'cs ext \<Rightarrow> string \<Rightarrow> 'cs charm \<Rightarrow> 'cs charm" where
  "set_signing_key E signing_key s =
     (case relations s of
        [] \<Rightarrow> s
      | _ # _ \<Rightarrow>
          (let (current, s1) = get_signing_key s
           in if Some signing_key = current then s1
              else if is_leader s1 then
                (let content = [(SECRET_SIGNING_KEY, signing_key)];
                     secret_id = new_secret_id E (secrets s1);
                     s2 = s1\<lparr>secrets := secrets s1 @ [(secret_id, map_of content)],
                             calls := calls s1 @ [AddSecret content]\<rparr>
                 in peer_data_update (\<lambda>d. d(SECRET_SIGNING_ID \<mapsto> secret_id)) s2)
              else s1))"

subsection \<open>The instance map\<close>

text \<open>
  A Python \<^verbatim>\<open>dict\<close> in insertion order: assigning to a key that is present replaces its
  value where it stands, a new key goes to the end.
\<close>

fun dict_set :: "('k \<times> 'v) list \<Rightarrow> 'k \<Rightarrow> 'v \<Rightarrow> ('k \<times> 'v) list" where
  "dict_set [] k v = [(k, v)]"
| "dict_set ((k', v') # kvs) k v =
     (if k' = k then (k, v) # kvs else (k', v') # dict_set kvs k v)"

type_synonym instance_map = "(string \<times> (string \<times> nat)) list"

text \<open>\<^verbatim>\<open>peer_units_total\<close> (lines 321-327).\<close>

definition peer_units_total :: "'cs charm \<Rightarrow> int" where
  "peer_units_total s = planned_units s"

text \<open>The list \<^verbatim>\<open>addresses\<close> of lines 155-169: this unit first, then the units of the relation.\<close>

definition addresses :: "'cs charm \<Rightarrow> string list" where
  "addresses s =
     (let unit_name' = replace_slash (unit_name s);
          app_name' = app_name s
      in [unit_name' @ ''.'' @ app_name' @ ''-endpoints''] @
         (case relations s of
            [] \<Rightarrow> []
          | relation # _ \<Rightarrow>
              map (\<lambda>u. replace_slash u @ ''.'' @ app_name' @ ''-endpoints'') (units relation)))"

text \<open>
  The loop of lines 175-185. \<^verbatim>\<open>match.group(1)\<close> on \<^verbatim>\<open>None\<close> raises \<^verbatim>\<open>AttributeError\<close>,
  which nothing catches.
\<close>

fun instance_map_loop :: "'cs charm \<Rightarrow> string list \<Rightarrow> instance_map \<Rightarrow> exn + instance_map" where
  "instance_map_loop s [] m = Inr m"
| "instance_map_loop s (address # rest) m =
     (let match = re_search_dash_digits address
      in if address = get_main_unit_address s then instance_map_loop s rest m
         else
           (case match of
              None \<Rightarrow> Inl AttributeError
            | Some unit_number \<Rightarrow>
                instance_map_loop s rest (dict_set m (''worker'' @ unit_number) (address, 8034))))"

text \<open>\<^verbatim>\<open>instance_map\<close> (lines 146-187); \<open>Inr None\<close> is the return of \<^verbatim>\<open>None\<close>.\<close>

definition instance_map :: "'cs charm \<Rightarrow> exn + instance_map option" where
  "instance_map s =
     (if peer_units_total s = 1 then Inr None
      else
        (let m0 = [(''main'', (get_main_unit_address s, 8035)),
                   (''federationsender1'', (get_main_unit_address s, 8034))]
         in case instance_map_loop s (addresses s) m0 of
              Inl e \<Rightarrow> Inl e
            | Inr m \<Rightarrow> Inr (Some m)))"

subsection \<open>Status and reconciliation\<close>




text \<open>Truthiness of an \<^verbatim>\<open>Optional[str]\<close>.\<close>

definition truthy :: "string option \<Rightarrow> bool" where
  "truthy v = (case v of None \<Rightarrow> False | Some x \<Rightarrow> x \<noteq> [])"


text \<open>
  The \<^verbatim>\<open>try\<close> block of \<^verbatim>\<open>reconcile\<close> (lines 205-229), one definition for each of
  its four commented steps. \<open>Inl\<close> is an exception raised inside the block, with the state
  at that point.
\<close>

definition signing_key_path :: "'cs ext \<Rightarrow> 'cs \<Rightarrow> string" where
  "signing_key_path E charm_state = ''/data/'' @ server_name E charm_state @ ''.signing.key''"



text \<open>
  ``create new signing key if needed'' (lines 220-225); a missing key file is the
  \<^verbatim>\<open>FileNotFoundError\<close> that the handler of lines 230-232 catches.
\<close>

definition create_signing_key ::
  "'cs ext \<Rightarrow> 'cs \<Rightarrow> string option \<Rightarrow> 'cs charm \<Rightarrow> exn \<times> 'cs charm + 'cs charm" where
  "create_signing_key E charm_state signing_key_from_secret s =
     (if is_main s \<and> \<not> truthy signing_key_from_secret then
        (let s1 = s\<lparr>calls := calls s @ [Pull (signing_key_path E charm_state)]\<rparr>
         in case files (workload s1) (signing_key_path E charm_state) of
              None \<Rightarrow> Inl (FileNotFoundError (signing_key_path E charm_state), s1)
            | Some signing_key \<Rightarrow> Inr (set_signing_key E (rstrip signing_key) s1))
      else Inr s)"




text \<open>The first step of \<^verbatim>\<open>reconcile\<close> (lines 197-199): a leader that sees no main unit records itself.\<close>

definition bootstrap_main_unit :: "'cs charm \<Rightarrow> 'cs charm" where
  "bootstrap_main_unit s =
     (if get_main_unit s = None \<and> is_leader s then set_main_unit (unit_name s) s else s)"


subsection \<open>Event handlers\<close>



subsection \<open>Observations used in the properties\<close>

text \<open>The signing-key reference that the peer databag holds (the read of line 426).\<close>

definition signing_ref :: "'cs charm \<Rightarrow> string option" where
  "signing_ref s = (case relations s of [] \<Rightarrow> None | r # _ \<Rightarrow> app_data r SECRET_SIGNING_ID)"

text \<open>The state that a step leaves, whether it returned or raised.\<close>

definition state_after :: "exn \<times> 'cs charm + 'cs charm \<Rightarrow> 'cs charm" where
  "state_after r = (case r of Inl (e, s) \<Rightarrow> s | Inr s \<Rightarrow> s)"

subsection \<open>Example deployments\<close>


text \<open>
  The deployment of the specification's example seen from \<open>synapse/0\<close>, the leader: three
  units, an empty peer databag, no secret, both services running, and the key file that
  the workload wrote, ending in a newline.
\<close>

definition charm_example :: "unit charm" where
  "charm_example =
     \<lparr>unit_name = ''synapse/0'', app_name = ''synapse'', planned_units = 3, is_leader = True,
      relations = [\<lparr>units = [''synapse/1'', ''synapse/2''], app_data = Map.empty\<rparr>],
      secrets = [], unit_status = UnknownStatus,
      workload =
        \<lparr>can_connect = True,
         files = [''/data/example.com.signing.key'' \<mapsto> ''ed25519 a_1 KEY'' @ [CHR 0x0A]],
         services = [''synapse'' \<mapsto> True, ''synapse-nginx'' \<mapsto> True]\<rparr>,
      calls = []\<rparr>"

text \<open>
  A peer group whose recorded main unit has a name without a number, seen from
  \<open>synapse/0\<close>.
\<close>

definition charm_idless_main :: "unit charm" where
  "charm_idless_main =
     \<lparr>unit_name = ''synapse/0'', app_name = ''synapse'', planned_units = 2, is_leader = False,
      relations = [\<lparr>units = [''synapse/main''], app_data = [MAIN_UNIT_ID \<mapsto> ''synapse/main'']\<rparr>],
      secrets = [], unit_status = UnknownStatus,
      workload = \<lparr>can_connect = True, files = Map.empty, services = Map.empty\<rparr>,
      calls = []\<rparr>"

text \<open>The main unit \<open>synapse/0\<close> with a peer whose name has no number.\<close>

definition charm_idless_worker :: "unit charm" where
  "charm_idless_worker =
     \<lparr>unit_name = ''synapse/0'', app_name = ''synapse'', planned_units = 2, is_leader = True,
      relations = [\<lparr>units = [''synapse/x''], app_data = [MAIN_UNIT_ID \<mapsto> ''synapse/0'']\<rparr>],
      secrets = [], unit_status = UnknownStatus,
      workload = \<lparr>can_connect = True, files = Map.empty, services = Map.empty\<rparr>,
      calls = []\<rparr>"

text \<open>
  Three units of an application named \<open>matrix-2go\<close> (a name Juju accepts: each part after
  a hyphen has a letter), seen from the main unit \<open>matrix-2go/0\<close>.
\<close>

definition charm_digit_app :: "unit charm" where
  "charm_digit_app =
     \<lparr>unit_name = ''matrix-2go/0'', app_name = ''matrix-2go'', planned_units = 3,
      is_leader = True,
      relations = [\<lparr>units = [''matrix-2go/1'', ''matrix-2go/2''],
                   app_data = [MAIN_UNIT_ID \<mapsto> ''matrix-2go/0'']\<rparr>],
      secrets = [], unit_status = UnknownStatus,
      workload = \<lparr>can_connect = True, files = Map.empty, services = Map.empty\<rparr>,
      calls = []\<rparr>"





section \<open>Properties\<close>

subsection \<open>String lemmas\<close>






subsection \<open>Unit identity\<close>







subsection \<open>The address of the main unit\<close>

lemma replace_slash_digits: "\<forall>c\<in>set n. is_digit c \<Longrightarrow> replace_slash n = n"
  by (induction n) (auto simp: replace_slash_def is_digit_def)

lemma replace_slash_append: "replace_slash (xs @ ys) = replace_slash xs @ replace_slash ys"
  by (simp add: replace_slash_def)

text \<open>
  C9. When no main unit is recorded (no peer relation, or no \<open>main_unit_id\<close> in the
  databag), \<^const>\<open>get_main_unit_address\<close> returns the address of the observing unit: its
  name with \<open>/\<close> replaced by \<open>-\<close>, then \<open>.<app>-endpoints\<close>. Two units \<open>app/n\<close> and
  \<open>app/n'\<close> of one application with different numbers, neither seeing a recorded main,
  therefore compute different main addresses.
\<close>

theorem main_address_fallback:
  "(get_main_unit s = None \<longrightarrow>
      get_main_unit_address s = replace_slash (unit_name s) @ ''.'' @ app_name s @ ''-endpoints'') \<and>
   (get_main_unit s = None \<and> get_main_unit s' = None \<and> app_name s' = app_name s \<and>
    unit_name s = app @ ''/'' @ n \<and> unit_name s' = app @ ''/'' @ n' \<and>
    (\<forall>c\<in>set n. is_digit c) \<and> (\<forall>c\<in>set n'. is_digit c) \<and> n \<noteq> n'
      \<longrightarrow> get_main_unit_address s \<noteq> get_main_unit_address s')"
proof (intro conjI impI)
  assume "get_main_unit s = None"
  then show "get_main_unit_address s = replace_slash (unit_name s) @ ''.'' @ app_name s @ ''-endpoints''"
    by (simp add: get_main_unit_address_def)
next
  assume a: "get_main_unit s = None \<and> get_main_unit s' = None \<and> app_name s' = app_name s \<and>
    unit_name s = app @ ''/'' @ n \<and> unit_name s' = app @ ''/'' @ n' \<and>
    (\<forall>c\<in>set n. is_digit c) \<and> (\<forall>c\<in>set n'. is_digit c) \<and> n \<noteq> n'"
  then have "replace_slash (unit_name s) = replace_slash app @ ''-'' @ n"
    and "replace_slash (unit_name s') = replace_slash app @ ''-'' @ n'"
    using replace_slash_digits by (simp_all add: replace_slash_append) (simp_all add: replace_slash_def)
  with a show "get_main_unit_address s \<noteq> get_main_unit_address s'"
    by (simp add: get_main_unit_address_def)
qed

theorem main_address_fallback_witness:
  "get_main_unit charm_example = None \<and>
   get_main_unit_address charm_example = ''synapse-0.synapse-endpoints'' \<and>
   get_main_unit_address charm_example \<noteq>
     get_main_unit_address (charm_example\<lparr>unit_name := ''synapse/1''\<rparr>)"
  using main_address_fallback
    [of charm_example "charm_example\<lparr>unit_name := ''synapse/1''\<rparr>" "''synapse''" "''0''" "''1''"]
  by (simp add: charm_example_def get_main_unit_def get_main_unit_address_def replace_slash_def
      is_digit_def)

subsection \<open>The unit status\<close>



subsection \<open>The instance map\<close>

lemma instance_map_loop_raises:
  "\<exists>a\<in>set as. a \<noteq> get_main_unit_address s \<and> re_search_dash_digits a = None
     \<Longrightarrow> instance_map_loop s as m = Inl AttributeError"
  by (induction as arbitrary: m) (auto simp: Let_def split: option.splits)

text \<open>
  C3, as the code has it. When more or fewer than one unit is planned and the address list
  holds an address, other than the address of the main unit, in which no hyphen is followed
  by a digit, \<^const>\<open>instance_map\<close> raises \<^verbatim>\<open>AttributeError\<close> and returns no map.
\<close>

theorem instance_map_raises:
  "planned_units s \<noteq> 1 \<Longrightarrow> a \<in> set (addresses s) \<Longrightarrow> a \<noteq> get_main_unit_address s \<Longrightarrow>
   re_search_dash_digits a = None \<Longrightarrow> instance_map s = Inl AttributeError"
proof -
  assume planned: "planned_units s \<noteq> 1" and a: "a \<in> set (addresses s)"
    "a \<noteq> get_main_unit_address s" "re_search_dash_digits a = None"
  from a have "\<exists>a\<in>set (addresses s). a \<noteq> get_main_unit_address s \<and> re_search_dash_digits a = None"
    by blast
  then have "instance_map_loop s (addresses s) m = Inl AttributeError" for m
    by (rule instance_map_loop_raises)
  with planned show ?thesis
    by (simp add: instance_map_def peer_units_total_def)
qed

theorem instance_map_raises_witness:
  "planned_units charm_idless_worker \<noteq> 1 \<and>
   ''synapse-x.synapse-endpoints'' \<in> set (addresses charm_idless_worker) \<and>
   ''synapse-x.synapse-endpoints'' \<noteq> get_main_unit_address charm_idless_worker \<and>
   re_search_dash_digits ''synapse-x.synapse-endpoints'' = None \<and>
   instance_map charm_idless_worker = Inl AttributeError"
  using instance_map_raises [of charm_idless_worker "''synapse-x.synapse-endpoints''"]
  by (simp add: charm_idless_worker_def addresses_def replace_slash_def get_main_unit_address_def
      get_main_unit_def MAIN_UNIT_ID_def is_digit_def)

text \<open>
  The claim as the specification states it fails: the address of the recorded main unit
  \<open>synapse/main\<close> has no number, the loop skips it, and a map is returned.
\<close>

theorem instance_map_idless_main_counterexample:
  "''synapse-main.synapse-endpoints'' \<in> set (addresses charm_idless_main) \<and>
   re_search_dash_digits ''synapse-main.synapse-endpoints'' = None \<and>
   instance_map charm_idless_main =
     Inr (Some [(''main'', (''synapse-main.synapse-endpoints'', 8035)),
                (''federationsender1'', (''synapse-main.synapse-endpoints'', 8034)),
                (''worker0'', (''synapse-0.synapse-endpoints'', 8034))])"
  by (simp add: charm_idless_main_def addresses_def replace_slash_def get_main_unit_address_def
      get_main_unit_def MAIN_UNIT_ID_def is_digit_def instance_map_def peer_units_total_def Let_def)

text \<open>
  C1 at an application named \<open>matrix-2go\<close>. The pattern finds \<open>-2\<close> in the application
  name before it reaches the unit number, both workers get the key \<open>worker2\<close>, and the
  map of a peer group of three units has three entries: the second worker overwrote the
  first.
\<close>

theorem instance_map_digit_app:
  "planned_units charm_digit_app = 3 \<and>
   addresses charm_digit_app =
     [''matrix-2go-0.matrix-2go-endpoints'', ''matrix-2go-1.matrix-2go-endpoints'',
      ''matrix-2go-2.matrix-2go-endpoints''] \<and>
   get_main_unit_address charm_digit_app = ''matrix-2go-0.matrix-2go-endpoints'' \<and>
   instance_map charm_digit_app =
     Inr (Some [(''main'', (''matrix-2go-0.matrix-2go-endpoints'', 8035)),
                (''federationsender1'', (''matrix-2go-0.matrix-2go-endpoints'', 8034)),
                (''worker2'', (''matrix-2go-2.matrix-2go-endpoints'', 8034))])"
  by (simp add: charm_digit_app_def addresses_def replace_slash_def get_main_unit_address_def
      get_main_unit_def MAIN_UNIT_ID_def is_digit_def instance_map_def peer_units_total_def Let_def)

subsection \<open>The peer databag and the signing key\<close>

lemma keys_distinct: "MAIN_UNIT_ID \<noteq> SECRET_SIGNING_ID"
  by (simp add: MAIN_UNIT_ID_def SECRET_SIGNING_ID_def)

lemma peer_data_update_fields:
  "unit_name (peer_data_update f s) = unit_name s"
  "app_name (peer_data_update f s) = app_name s"
  "planned_units (peer_data_update f s) = planned_units s"
  "is_leader (peer_data_update f s) = is_leader s"
  "secrets (peer_data_update f s) = secrets s"
  "unit_status (peer_data_update f s) = unit_status s"
  "workload (peer_data_update f s) = workload s"
  "calls (peer_data_update f s) = calls s"
  "(relations (peer_data_update f s) = []) = (relations s = [])"
  by (simp_all add: peer_data_update_def split: list.split)



lemma set_main_unit_eq: "set_main_unit u s = peer_data_update (\<lambda>d. d(MAIN_UNIT_ID \<mapsto> u)) s"
  by (simp add: set_main_unit_def peer_data_update_def)

lemma fst_get_signing_key:
  "fst (get_signing_key s) =
     (case signing_ref s of
        None \<Rightarrow> None
      | Some secret_id \<Rightarrow>
          if secret_id = [] then None
          else (case map_of (secrets s) secret_id of
                  None \<Rightarrow> None
                | Some content \<Rightarrow> content SECRET_SIGNING_KEY))"
  by (simp add: get_signing_key_def signing_ref_def split: list.split option.split)

lemma snd_get_signing_key:
  "snd (get_signing_key s) = s \<or>
   (fst (get_signing_key s) = None \<and>
    snd (get_signing_key s) = peer_data_update (\<lambda>d. d(SECRET_SIGNING_ID := None)) s)"
  by (simp add: get_signing_key_def split: list.split option.split)


lemma get_signing_key_fields:
  "unit_name (snd (get_signing_key s)) = unit_name s"
  "app_name (snd (get_signing_key s)) = app_name s"
  "planned_units (snd (get_signing_key s)) = planned_units s"
  "is_leader (snd (get_signing_key s)) = is_leader s"
  "secrets (snd (get_signing_key s)) = secrets s"
  "unit_status (snd (get_signing_key s)) = unit_status s"
  "workload (snd (get_signing_key s)) = workload s"
  "calls (snd (get_signing_key s)) = calls s"
  "(relations (snd (get_signing_key s)) = []) = (relations s = [])"
  using snd_get_signing_key [of s] by (auto simp: peer_data_update_fields)

lemma get_signing_key_main: "get_main_unit (snd (get_signing_key s)) = get_main_unit s"
proof -
  have "get_main_unit (peer_data_update (\<lambda>d. d(SECRET_SIGNING_ID := None)) s) = get_main_unit s"
    using keys_distinct
    by (cases "relations s") (simp_all add: peer_data_update_def get_main_unit_def)
  then show ?thesis
    using snd_get_signing_key [of s] by auto
qed


text \<open>After one call the reference is gone or resolves: a second call changes nothing more.\<close>

lemma get_signing_key_twice:
  "get_signing_key (snd (get_signing_key s)) = (fst (get_signing_key s), snd (get_signing_key s))"
  by (auto simp: get_signing_key_def peer_data_update_def split: list.split option.split)

lemma observers_update:
  "get_main_unit (s\<lparr>calls := cl\<rparr>) = get_main_unit s"
  "get_main_unit (s\<lparr>workload := w\<rparr>) = get_main_unit s"
  "get_main_unit (s\<lparr>unit_status := st\<rparr>) = get_main_unit s"
  "get_main_unit (s\<lparr>secrets := ss\<rparr>) = get_main_unit s"
  "signing_ref (s\<lparr>calls := cl\<rparr>) = signing_ref s"
  "signing_ref (s\<lparr>workload := w\<rparr>) = signing_ref s"
  "signing_ref (s\<lparr>unit_status := st\<rparr>) = signing_ref s"
  "signing_ref (s\<lparr>secrets := ss\<rparr>) = signing_ref s"
  "is_main (s\<lparr>calls := cl\<rparr>) = is_main s"
  "is_main (s\<lparr>workload := w\<rparr>) = is_main s"
  "is_main (s\<lparr>unit_status := st\<rparr>) = is_main s"
  "get_unit_number (s\<lparr>calls := cl\<rparr>) n = get_unit_number s n"
  "get_unit_number (s\<lparr>workload := w\<rparr>) n = get_unit_number s n"
  "get_unit_number (s\<lparr>unit_status := st\<rparr>) n = get_unit_number s n"
  "get_main_unit_address (s\<lparr>calls := cl\<rparr>) = get_main_unit_address s"
  "get_main_unit_address (s\<lparr>workload := w\<rparr>) = get_main_unit_address s"
  "get_main_unit_address (s\<lparr>unit_status := st\<rparr>) = get_main_unit_address s"
  by (simp_all add: get_main_unit_def signing_ref_def is_main_def get_unit_number_def
      get_main_unit_address_def split: option.split)



lemma set_signing_key_cases:
  "set_signing_key E k s = snd (get_signing_key s) \<or>
   (is_leader s \<and> relations s \<noteq> [] \<and> fst (get_signing_key s) \<noteq> Some k \<and>
    set_signing_key E k s =
      peer_data_update (\<lambda>d. d(SECRET_SIGNING_ID \<mapsto> new_secret_id E (secrets s)))
        ((snd (get_signing_key s))
           \<lparr>secrets := secrets s @ [(new_secret_id E (secrets s), map_of [(SECRET_SIGNING_KEY, k)])],
            calls := calls s @ [AddSecret [(SECRET_SIGNING_KEY, k)]]\<rparr>))"
proof (cases "relations s")
  case Nil
  then show ?thesis by (simp add: set_signing_key_def get_signing_key_def)
next
  case (Cons r rs)
  then show ?thesis
    by (auto simp: set_signing_key_def Let_def case_prod_beta get_signing_key_fields)
qed



lemma set_signing_key_fields:
  "unit_name (set_signing_key E k s) = unit_name s"
  "app_name (set_signing_key E k s) = app_name s"
  "planned_units (set_signing_key E k s) = planned_units s"
  "is_leader (set_signing_key E k s) = is_leader s"
  "unit_status (set_signing_key E k s) = unit_status s"
  "workload (set_signing_key E k s) = workload s"
  "(relations (set_signing_key E k s) = []) = (relations s = [])"
  using set_signing_key_cases [of E k s]
  by (auto simp: peer_data_update_fields get_signing_key_fields)

lemma set_signing_key_main: "get_main_unit (set_signing_key E k s) = get_main_unit s"
proof -
  have "get_main_unit (peer_data_update (\<lambda>d. d(SECRET_SIGNING_ID \<mapsto> i)) t) = get_main_unit t" for i and t :: "'a charm"
    using keys_distinct
    by (cases "relations t") (simp_all add: peer_data_update_def get_main_unit_def)
  then show ?thesis
    using set_signing_key_cases [of E k s]
    by (auto simp: observers_update get_signing_key_main)
qed

lemma state_after_simps [simp]:
  "state_after (Inl (e, s)) = s" "state_after (Inr s) = s"
  by (simp_all add: state_after_def)




lemma create_signing_key_frame:
  "unit_name (state_after (create_signing_key E cs k s)) = unit_name s"
  "app_name (state_after (create_signing_key E cs k s)) = app_name s"
  "planned_units (state_after (create_signing_key E cs k s)) = planned_units s"
  "is_leader (state_after (create_signing_key E cs k s)) = is_leader s"
  "unit_status (state_after (create_signing_key E cs k s)) = unit_status s"
  "workload (state_after (create_signing_key E cs k s)) = workload s"
  "(relations (state_after (create_signing_key E cs k s)) = []) = (relations s = [])"
  "get_main_unit (state_after (create_signing_key E cs k s)) = get_main_unit s"
  by (simp_all add: create_signing_key_def Let_def observers_update set_signing_key_fields
      set_signing_key_main split: option.split)

lemma is_main_create_signing_key:
  "is_main (state_after (create_signing_key E cs k s)) = is_main s"
  by (simp add: is_main_def create_signing_key_frame)










lemma bootstrap_frame:
  "unit_name (bootstrap_main_unit s) = unit_name s"
  "app_name (bootstrap_main_unit s) = app_name s"
  "planned_units (bootstrap_main_unit s) = planned_units s"
  "is_leader (bootstrap_main_unit s) = is_leader s"
  "secrets (bootstrap_main_unit s) = secrets s"
  "unit_status (bootstrap_main_unit s) = unit_status s"
  "workload (bootstrap_main_unit s) = workload s"
  "calls (bootstrap_main_unit s) = calls s"
  "(relations (bootstrap_main_unit s) = []) = (relations s = [])"
  by (simp_all add: bootstrap_main_unit_def set_main_unit_eq peer_data_update_fields)


lemma set_main_unit_ref: "signing_ref (set_main_unit u s) = signing_ref s"
  using keys_distinct
  by (cases "relations s") (simp_all add: set_main_unit_def signing_ref_def)


lemma bootstrap_ref: "signing_ref (bootstrap_main_unit s) = signing_ref s"
  by (simp add: bootstrap_main_unit_def set_main_unit_ref)

lemma bootstrap_key: "fst (get_signing_key (bootstrap_main_unit s)) = fst (get_signing_key s)"
  by (simp add: fst_get_signing_key bootstrap_ref bootstrap_frame split: option.split)
























end
